theory Spec2Isabelle
  imports Main "HOL-Library.Char_ord" "HOL-Library.List_Lexorder" "HOL-Library.Multiset"
begin

section \<open>The entry points of the sharded counter (functions/src/index.ts)\<close>

text \<open>
  The module wires four cloud-function handlers to the controller and the worker of the
  sharded counter. The handlers are modelled as state-passing functions on a
  \<open>world\<close>: the module-level variable \<open>pubsub\<close>, the coordination store (the
  counter's documents, of any type \<open>'s\<close>), and the list of the calls the handlers
  made on their collaborators, in the order they made them. The classes
  \<open>ShardedCounterController\<close> and \<open>ShardedCounterWorker\<close> are imported from
  modules that are not part of the sources at hand; their methods are parameters of the
  model (\<open>collaborators\<close>), so every theorem about a handler holds for every behaviour
  of theirs. A method of theirs returns: the specification surfaces the failures of the
  controller as statuses. The calls on the two client libraries can fail, and index.ts
  catches nothing: \<open>firestore.doc\<close> and \<open>pubsub.topic\<close> throw on an argument they
  refuse, and the promise of \<open>publish\<close> can reject. A handler then rejects at that
  point, with what it did before left done.
\<close>

subsection \<open>Values and objects\<close>

text \<open>A variable of \<open>process.env\<close> is a string or undefined.\<close>

record process_env =
  INTERNAL_STATE_PATH :: "string option"
  EXT_INSTANCE_ID :: "string option"

text \<open>String concatenation turns undefined into the text \<open>undefined\<close>.\<close>

fun js_string :: "string option \<Rightarrow> string" where
  "js_string None = ''undefined''"
| "js_string (Some s) = s"

datatype js_value = Null | Undefined

definition SHARDS_COLLECTION_ID :: string where
  "SHARDS_COLLECTION_ID = ''_counter_shards_''"

definition WORKERS_COLLECTION_ID :: string where
  "WORKERS_COLLECTION_ID = ''_counter_workers_''"

text \<open>Why a handler rejects: the call of a client library that failed.\<close>

datatype failure = InvalidDocumentPath | InvalidTopicName | PublishRejected

text \<open>
  \<open>firestore.doc(path)\<close>: a reference to the document at \<open>path\<close>. The client
  throws unless the path is a non-empty string without an empty component inside
  (\<open>//\<close>) that has an even, positive number of components (a path with an odd number
  names a collection); a slash at either end is allowed.
\<close>

datatype DocumentReference = DocumentReference string

fun segments_from :: "string \<Rightarrow> string \<Rightarrow> string list" where
  "segments_from seg [] = (if seg = [] then [] else [seg])"
| "segments_from seg (c # cs) =
     (if c = CHR ''/''
      then (if seg = [] then [] else [seg]) @ segments_from [] cs
      else segments_from (seg @ [c]) cs)"

definition segments :: "string \<Rightarrow> string list" where
  "segments p = segments_from [] p"

fun has_double_slash :: "string \<Rightarrow> bool" where
  "has_double_slash (a # b # cs) =
     (if a = CHR ''/'' \<and> b = CHR ''/'' then True else has_double_slash (b # cs))"
| "has_double_slash _ = False"

definition is_document_path :: "string \<Rightarrow> bool" where
  "is_document_path p =
     (if p = [] then False
      else if has_double_slash p then False
      else 0 < length (segments p) \<and> even (length (segments p)))"

definition firestore_doc :: "string option \<Rightarrow> failure + DocumentReference" where
  "firestore_doc path =
     (case path of
        None \<Rightarrow> Inl InvalidDocumentPath
      | Some p \<Rightarrow>
          if is_document_path p then Inr (DocumentReference p) else Inl InvalidDocumentPath)"

text \<open>
  \<open>pubsub.topic(name)\<close>: the client throws when the name is undefined or the empty
  string.
\<close>

definition topic :: "string option \<Rightarrow> failure + string" where
  "topic name =
     (case name of
        None \<Rightarrow> Inl InvalidTopicName
      | Some n \<Rightarrow> if n = [] then Inl InvalidTopicName else Inr n)"

text \<open>The key range \<open>{ start, end }\<close> handed to the controller.\<close>

record Slice =
  start :: string
  end_key :: string

text \<open>
  Modelled from the spec: the enumeration \<open>ControllerStatus\<close> is declared in the
  controller module; index.ts names three of its members, the spec gives the fourth
  (\<open>OK\<close>) and says that the type is closed.
\<close>

datatype ControllerStatus = WORKERS_RUNNING | TOO_MANY_SHARDS | OK | FAILURE

text \<open>
  Objects of the two imported classes, as their constructor arguments:
  \<open>new ShardedCounterController(metadocRef, shardsId)\<close> and
  \<open>new ShardedCounterWorker(snapshot, shardsId)\<close>.
\<close>

record ShardedCounterController =
  controllerDocRef :: DocumentReference
  controllerShardsId :: string

text \<open>
  A document snapshot: the path of the document and its fields, if the document exists
  (\<open>'d\<close> is the type of the fields).
\<close>

record 'd DocumentSnapshot =
  ref :: string
  data :: "'d option"

definition exists :: "'d DocumentSnapshot \<Rightarrow> bool" where
  "exists snap = (data snap \<noteq> None)"

record 'd ShardedCounterWorker =
  workerMetadoc :: "'d DocumentSnapshot"
  workerShardsId :: string

text \<open>The event of a document-write trigger: the document before and after the write.\<close>

record 'd Change =
  before :: "'d DocumentSnapshot"
  after :: "'d DocumentSnapshot"

record EventContext =
  params :: "(string \<times> string) list"

text \<open>
  A messaging client; the number tells the objects apart that \<open>new PubSub()\<close>
  returns (the n-th client constructed in this process has number n, from 0).
\<close>

datatype PubSub = PubSub nat

text \<open>The calls a handler makes on its collaborators.\<close>

datatype 'd call =
    AggregateOnce ShardedCounterController Slice nat
  | RescheduleWorkers ShardedCounterController
  | AggregateContinuously ShardedCounterController Slice nat nat
  | WorkerRun "'d ShardedCounterWorker"
  | NewPubSub
  | Publish PubSub string string
  | Respond nat string

record ('s, 'd) world =
  pubsub :: "PubSub option"
  constructed :: nat
  store :: 's
  calls :: "'d call list"

text \<open>
  The methods of the controller and of the worker, as functions of the coordination
  store. Only \<open>aggregateOnce\<close> returns a value that index.ts reads.
\<close>

record ('s, 'd) collaborators =
  aggregateOnce :: "ShardedCounterController \<Rightarrow> Slice \<Rightarrow> nat \<Rightarrow> 's \<Rightarrow> ControllerStatus \<times> 's"
  rescheduleWorkers :: "ShardedCounterController \<Rightarrow> 's \<Rightarrow> 's"
  aggregateContinuously :: "ShardedCounterController \<Rightarrow> Slice \<Rightarrow> nat \<Rightarrow> nat \<Rightarrow> 's \<Rightarrow> 's"
  run :: "'d ShardedCounterWorker \<Rightarrow> 's \<Rightarrow> 's"

definition record_call :: "'d call \<Rightarrow> ('s, 'd) world \<Rightarrow> ('s, 'd) world" where
  "record_call c w = w\<lparr>calls := calls w @ [c]\<rparr>"

subsection \<open>The handlers\<close>

text \<open>
  \<open>controllerCore\<close>, on every message published to the tick topic:
  \<^verbatim>\<open>
  const metadocRef = firestore.doc(process.env.INTERNAL_STATE_PATH);
  const controller = new ShardedCounterController(metadocRef, SHARDS_COLLECTION_ID);
  let status = await controller.aggregateOnce({ start: "", end: "" }, 200);
  if (status === ControllerStatus.WORKERS_RUNNING ||
      status === ControllerStatus.TOO_MANY_SHARDS ||
      status === ControllerStatus.FAILURE) {
    await controller.rescheduleWorkers();
  }
  return null;
  \<close>
\<close>

definition controllerCore ::
  "('s, 'd) collaborators \<Rightarrow> process_env \<Rightarrow> ('s, 'd) world
     \<Rightarrow> (failure + js_value) \<times> ('s, 'd) world" where
  "controllerCore C env w =
     (case firestore_doc (INTERNAL_STATE_PATH env) of
        Inl e \<Rightarrow> (Inl e, w)
      | Inr metadocRef \<Rightarrow>
          (let controller =
                 \<lparr>controllerDocRef = metadocRef, controllerShardsId = SHARDS_COLLECTION_ID\<rparr>;
               slice = \<lparr>start = '''', end_key = ''''\<rparr>;
               (status, s1) = aggregateOnce C controller slice 200 (store w);
               w1 = record_call (AggregateOnce controller slice 200) (w\<lparr>store := s1\<rparr>)
           in if status = WORKERS_RUNNING \<or> status = TOO_MANY_SHARDS \<or> status = FAILURE
              then (Inr Null, record_call (RescheduleWorkers controller)
                            (w1\<lparr>store := rescheduleWorkers C controller (store w1)\<rparr>))
              else (Inr Null, w1)))"

text \<open>
  \<open>controller\<close>, the HTTPS function kept for backwards compatibility:
  \<^verbatim>\<open>
  if (!pubsub) { pubsub = new PubSub(); }
  await pubsub.topic(process.env.EXT_INSTANCE_ID).publish(Buffer.from(JSON.stringify({})));
  res.status(200).send("Ok");
  \<close>
  \<open>JSON.stringify({})\<close> is the two characters of the empty object. Whether the
  promise of \<open>publish\<close> resolves is in the hands of the messaging service: it is the
  argument \<open>published\<close> (\<open>None\<close> when it resolves, the failure when it rejects).
\<close>

definition JSON_stringify_empty_object :: string where
  "JSON_stringify_empty_object = ''{}''"

definition init_pubsub :: "('s, 'd) world \<Rightarrow> PubSub \<times> ('s, 'd) world" where
  "init_pubsub w =
     (case pubsub w of
        None \<Rightarrow>
          (let client = PubSub (constructed w)
           in (client, record_call NewPubSub
                 (w\<lparr>pubsub := Some client, constructed := Suc (constructed w)\<rparr>)))
      | Some client \<Rightarrow> (client, w))"

definition controller ::
  "process_env \<Rightarrow> failure option \<Rightarrow> ('s, 'd) world
     \<Rightarrow> (failure + js_value) \<times> ('s, 'd) world" where
  "controller env published w =
     (let (client, w1) = init_pubsub w
      in case topic (EXT_INSTANCE_ID env) of
           Inl e \<Rightarrow> (Inl e, w1)
         | Inr name \<Rightarrow>
             (let w2 = record_call (Publish client name JSON_stringify_empty_object) w1
              in case published of
                   Some e \<Rightarrow> (Inl e, w2)
                 | None \<Rightarrow> (Inr Undefined, record_call (Respond 200 ''Ok'') w2)))"

text \<open>
  \<open>worker\<close>, on every write to a worker's metadata document:
  \<^verbatim>\<open>
  // stop worker if document got deleted
  if (!change.after.exists) return;
  const worker = new ShardedCounterWorker(change.after, SHARDS_COLLECTION_ID);
  await worker.run();
  \<close>
\<close>

definition worker ::
  "('s, 'd) collaborators \<Rightarrow> 'd Change \<Rightarrow> EventContext \<Rightarrow> ('s, 'd) world
     \<Rightarrow> js_value \<times> ('s, 'd) world" where
  "worker C change context w =
     (if \<not> exists (after change) then (Undefined, w)
      else
        (let worker = \<lparr>workerMetadoc = after change, workerShardsId = SHARDS_COLLECTION_ID\<rparr>
         in (Undefined, record_call (WorkerRun worker) (w\<lparr>store := run C worker (store w)\<rparr>))))"

text \<open>
  \<open>onWrite\<close>, on every write to a shard document:
  \<^verbatim>\<open>
  const metadocRef = firestore.doc(process.env.INTERNAL_STATE_PATH);
  const controller = new ShardedCounterController(metadocRef, SHARDS_COLLECTION_ID);
  await controller.aggregateContinuously({ start: "", end: "" }, 200, 60000);
  \<close>
\<close>

definition onWrite ::
  "('s, 'd) collaborators \<Rightarrow> process_env \<Rightarrow> 'e Change \<Rightarrow> EventContext \<Rightarrow> ('s, 'd) world
     \<Rightarrow> (failure + js_value) \<times> ('s, 'd) world" where
  "onWrite C env change context w =
     (case firestore_doc (INTERNAL_STATE_PATH env) of
        Inl e \<Rightarrow> (Inl e, w)
      | Inr metadocRef \<Rightarrow>
          (let controller =
                 \<lparr>controllerDocRef = metadocRef, controllerShardsId = SHARDS_COLLECTION_ID\<rparr>;
               slice = \<lparr>start = '''', end_key = ''''\<rparr>
           in (Inr Undefined, record_call (AggregateContinuously controller slice 200 60000)
                 (w\<lparr>store := aggregateContinuously C controller slice 200 60000 (store w)\<rparr>))))"

subsection \<open>The exports of the module\<close>

text \<open>
  Each \<open>export const\<close> of index.ts, in the order of the file, with the trigger it is
  registered on: a Pub/Sub topic, an HTTPS request, or the writes to the documents that
  match a path pattern.
\<close>

datatype trigger =
    PubsubTopicOnPublish
  | HttpsOnRequest
  | FirestoreDocumentOnWrite string

definition exports :: "process_env \<Rightarrow> (string \<times> trigger) list" where
  "exports env =
     [(''controllerCore'', PubsubTopicOnPublish),
      (''controller'', HttpsOnRequest),
      (''worker'', FirestoreDocumentOnWrite
         (js_string (INTERNAL_STATE_PATH env) @ WORKERS_COLLECTION_ID @ ''/{workerId}'')),
      (''onWrite'', FirestoreDocumentOnWrite ''/{collection}/{**}/_counter_shards_/{shardId}'')]"

subsection \<open>A process that serves invocations\<close>

text \<open>
  The module state lives as long as the process does: the invocations that one process
  serves run on the same world, one after the other. An invocation is a tick message, an
  HTTPS request (with the outcome of its publish), a write to a worker's metadata document
  or a write to a shard document.
\<close>

datatype ('d, 'e) invocation =
    Tick
  | HttpRequest "failure option"
  | WorkerDocWrite "'d Change" EventContext
  | ShardDocWrite "'e Change" EventContext

fun serve ::
  "('s, 'd) collaborators \<Rightarrow> process_env \<Rightarrow> ('d, 'e) invocation \<Rightarrow> ('s, 'd) world
     \<Rightarrow> ('s, 'd) world" where
  "serve C env Tick w = snd (controllerCore C env w)"
| "serve C env (HttpRequest published) w = snd (controller env published w)"
| "serve C env (WorkerDocWrite change context) w = snd (worker C change context w)"
| "serve C env (ShardDocWrite change context) w = snd (onWrite C env change context w)"

fun serve_all ::
  "('s, 'd) collaborators \<Rightarrow> process_env \<Rightarrow> ('d, 'e) invocation list \<Rightarrow> ('s, 'd) world
     \<Rightarrow> ('s, 'd) world" where
  "serve_all C env [] w = w"
| "serve_all C env (i # is) w = serve_all C env is (serve C env i w)"

text \<open>The world of a process that has served nothing yet: \<open>let pubsub;\<close> is undefined.\<close>

definition fresh :: "'s \<Rightarrow> ('s, 'd) world" where
  "fresh s = \<lparr>pubsub = None, constructed = 0, store = s, calls = []\<rparr>"

text \<open>The calls that were made between the world \<open>w\<close> and the later world \<open>w'\<close>.\<close>

definition new_calls :: "('s, 'd) world \<Rightarrow> ('s, 'd) world \<Rightarrow> 'd call list" where
  "new_calls w w' = drop (length (calls w)) (calls w')"

fun is_AggregateOnce :: "'d call \<Rightarrow> bool" where
  "is_AggregateOnce (AggregateOnce c r n) = True"
| "is_AggregateOnce _ = False"

fun is_RescheduleWorkers :: "'d call \<Rightarrow> bool" where
  "is_RescheduleWorkers (RescheduleWorkers c) = True"
| "is_RescheduleWorkers _ = False"

fun is_HttpRequest :: "('d, 'e) invocation \<Rightarrow> bool" where
  "is_HttpRequest (HttpRequest published) = True"
| "is_HttpRequest _ = False"

fun is_Respond :: "'d call \<Rightarrow> bool" where
  "is_Respond (Respond code body) = True"
| "is_Respond _ = False"

text \<open>The calls that reach the counter: every method of the controller and of the worker.\<close>

fun on_counter :: "'d call \<Rightarrow> bool" where
  "on_counter (AggregateOnce c r n) = True"
| "on_counter (RescheduleWorkers c) = True"
| "on_counter (AggregateContinuously c r n b) = True"
| "on_counter (WorkerRun k) = True"
| "on_counter _ = False"

text \<open>The controller object that \<open>controllerCore\<close> and \<open>onWrite\<close> construct.\<close>

definition state_controller :: "DocumentReference \<Rightarrow> ShardedCounterController" where
  "state_controller metadocRef =
     \<lparr>controllerDocRef = metadocRef, controllerShardsId = ''_counter_shards_''\<rparr>"

definition full_range :: Slice where
  "full_range = \<lparr>start = '''', end_key = ''''\<rparr>"

text \<open>
  Collaborators for the examples: \<open>aggregateOnce\<close> reports the given status, and no
  method changes the store.
\<close>

definition reporting :: "ControllerStatus \<Rightarrow> ('s, 'd) collaborators" where
  "reporting st =
     \<lparr>aggregateOnce = (\<lambda>c r n s. (st, s)),
      rescheduleWorkers = (\<lambda>c s. s),
      aggregateContinuously = (\<lambda>c r n b s. s),
      run = (\<lambda>k s. s)\<rparr>"

text \<open>
  Collaborators that change the store, on a store that is a number: \<open>aggregateOnce\<close>
  adds one and reports the given status, \<open>rescheduleWorkers\<close> doubles,
  \<open>aggregateContinuously\<close> adds its limit, \<open>run\<close> adds three.
\<close>

definition probe :: "ControllerStatus \<Rightarrow> (nat, 'd) collaborators" where
  "probe st =
     \<lparr>aggregateOnce = (\<lambda>c r n s. (st, Suc s)),
      rescheduleWorkers = (\<lambda>c s. 2 * s),
      aggregateContinuously = (\<lambda>c r n b s. s + n),
      run = (\<lambda>k s. s + 3)\<rparr>"

text \<open>
  Two configurations of the process: one whose two variables are not set, and a complete
  one.
\<close>

definition env_unset :: process_env where
  "env_unset = \<lparr>INTERNAL_STATE_PATH = None, EXT_INSTANCE_ID = None\<rparr>"

definition env0 :: process_env where
  "env0 = \<lparr>INTERNAL_STATE_PATH = Some ''_firebase_ext_/sharded_counter/'',
            EXT_INSTANCE_ID = Some ''firestore-counter''\<rparr>"

section \<open>The data model and the aggregator of the specification\<close>

text \<open>
  The controller and worker modules, and with them the aggregation transaction, are not
  among the sources. What follows is their data model and the aggregator as the
  specification words them (sections 3 and 4.1), for one counter.
\<close>

subsection \<open>Data model\<close>

text \<open>
  Modelled from the spec: the shard record (missing: its declaration in the absent
  modules), "a single increment contribution" with a "numeric delta (may be negative)"
  and a "creation order key" that is a string.
\<close>

record Shard =
  shard_key :: string
  delta :: int

text \<open>
  Modelled from the spec: the worker descriptor (missing: the metadata document the absent
  worker module reads and writes), with its "partition key range", "status", "last-heartbeat
  timestamp", "shards-processed-in-last-run count" and "desired-stop flag".
\<close>

datatype WorkerStatus = RUNNING | IDLE | FAILED

record WorkerDescriptor =
  descriptor_range :: Slice
  worker_status :: WorkerStatus
  heartbeat :: nat
  processed :: nat
  stop :: bool

text \<open>
  Modelled from the spec: the documents of one counter in the coordination store (missing:
  the store accesses of the absent modules): the total of the aggregate state document,
  the shard records and the worker descriptors.
\<close>

record CounterState =
  total_value :: int
  shards :: "Shard list"
  workers :: "WorkerDescriptor list"

subsection \<open>Aggregator\<close>

text \<open>
  Modelled from the spec: membership of a key in the range \<open>[start, end)\<close> (missing: the
  range query of the absent modules). The range \<open>{start: "", end: ""}\<close> that index.ts
  passes is the full key range, so an empty bound is no bound.
\<close>

definition in_range :: "Slice \<Rightarrow> string \<Rightarrow> bool" where
  "in_range r k = ((start r = [] \<or> start r \<le> k) \<and> (end_key r = [] \<or> k < end_key r))"

text \<open>
  Modelled from the spec: the range query (missing: the query of the absent modules),
  "up to limit shard records whose key falls in range, ordered by key ascending".
\<close>

definition range_query :: "Slice \<Rightarrow> nat \<Rightarrow> Shard list \<Rightarrow> Shard list" where
  "range_query r limit xs =
     take limit (filter (\<lambda>x. in_range r (shard_key x)) (sort_key shard_key xs))"

text \<open>
  Modelled from the spec: \<open>aggregate(range, limit) -> {consumed, status}\<close> (missing: the
  aggregation transaction of the absent controller and worker modules).
  "If zero records found: returns status = DRAINED. Otherwise, within a single
  transaction: [...] sums deltas, applies the sum as an atomic increment to the aggregate
  total document, deletes every consumed shard record, commits. Returns status =
  AGGREGATED, consumed = batch size. If consumed == limit [...] returns status =
  TOO_MANY_SHARDS alongside AGGREGATED [...]. Transaction conflict [...] is retried with
  bounded attempts; exhausting retries yields status = FAILURE and no partial effect."
  Whether the retries are exhausted is not in the hands of the aggregator: it is the
  argument \<open>exhausted\<close>. The status of a full batch is \<open>AGGREGATED_TOO_MANY_SHARDS\<close>,
  and the aggregator's failure is \<open>AGGREGATE_FAILURE\<close>.
\<close>

datatype AggregateStatus =
  DRAINED | AGGREGATED | AGGREGATED_TOO_MANY_SHARDS | AGGREGATE_FAILURE

record AggregateResult =
  consumed :: nat
  status :: AggregateStatus

definition aggregate ::
  "Slice \<Rightarrow> nat \<Rightarrow> bool \<Rightarrow> CounterState \<Rightarrow> AggregateResult \<times> CounterState" where
  "aggregate r limit exhausted s =
     (let batch = range_query r limit (shards s)
      in if batch = [] then (\<lparr>consumed = 0, status = DRAINED\<rparr>, s)
         else if exhausted then (\<lparr>consumed = 0, status = AGGREGATE_FAILURE\<rparr>, s)
         else
           (\<lparr>consumed = length batch,
             status = (if length batch = limit then AGGREGATED_TOO_MANY_SHARDS else AGGREGATED)\<rparr>,
            s\<lparr>total_value := total_value s + sum_list (map delta batch),
              shards := fold remove1 batch (shards s)\<rparr>))"

subsection \<open>Shard writes and aggregation passes, interleaved\<close>

text \<open>
  Modelled from the spec: a history of the counter (missing: the writers and the passes of
  the absent modules). A writer creates one shard record; an aggregation pass, direct
  (the controller, on the full range) or partitioned (a worker, on the range of its
  descriptor), is one call of the aggregator; rescheduling and the heartbeat of a worker
  write worker descriptors only. Each is atomic in the store, so a history is a list of
  them in the order the store commits them.
\<close>

datatype event =
    ShardWrite Shard
  | AggregationPass Slice nat bool
  | DescriptorsWrite "WorkerDescriptor list"

fun step :: "event \<Rightarrow> CounterState \<Rightarrow> CounterState" where
  "step (ShardWrite x) s = s\<lparr>shards := shards s @ [x]\<rparr>"
| "step (AggregationPass r limit exhausted) s = snd (aggregate r limit exhausted s)"
| "step (DescriptorsWrite ws) s = s\<lparr>workers := ws\<rparr>"

fun run_events :: "event list \<Rightarrow> CounterState \<Rightarrow> CounterState" where
  "run_events [] s = s"
| "run_events (e # es) s = run_events es (step e s)"

fun written :: "event list \<Rightarrow> int list" where
  "written [] = []"
| "written (ShardWrite x # es) = delta x # written es"
| "written (AggregationPass r limit exhausted # es) = written es"
| "written (DescriptorsWrite ws # es) = written es"

text \<open>The counter before any write: total 0, no shard record.\<close>

definition empty_counter :: "WorkerDescriptor list \<Rightarrow> CounterState" where
  "empty_counter ws = \<lparr>total_value = 0, shards = [], workers = ws\<rparr>"

text \<open>
  The quantity that aggregation conserves: the total plus the deltas of the shard records
  that are still in the store.
\<close>

definition balance :: "CounterState \<Rightarrow> int" where
  "balance s = total_value s + sum_list (map delta (shards s))"

section \<open>Invariant of the module state\<close>

text \<open>
  Either no messaging client was constructed and the variable is unset, or exactly one
  was and the variable holds it.
\<close>

definition client_inv :: "('s, 'd) world \<Rightarrow> bool" where
  "client_inv w =
     (if pubsub w = None
      then constructed w = 0 \<and> filter (\<lambda>c. c = NewPubSub) (calls w) = []
      else pubsub w = Some (PubSub 0) \<and> constructed w = 1
           \<and> filter (\<lambda>c. c = NewPubSub) (calls w) = [NewPubSub])"

section \<open>Example inputs\<close>

text \<open>
  A worker's metadata document that is running, the same document with the stop flag
  set, and two writes that a trigger can deliver on it: the update that sets the stop
  flag, and the deletion of the document.
\<close>

definition descriptor0 :: WorkerDescriptor where
  "descriptor0 =
     \<lparr>descriptor_range = \<lparr>start = '''', end_key = ''m''\<rparr>, worker_status = RUNNING,
      heartbeat = 1000, processed = 12, stop = False\<rparr>"

definition worker_path0 :: string where
  "worker_path0 = ''_firebase_ext_/sharded_counter/_counter_workers_/w1''"

definition stop_change :: "WorkerDescriptor Change" where
  "stop_change =
     \<lparr>before = \<lparr>ref = worker_path0, data = Some descriptor0\<rparr>,
      after = \<lparr>ref = worker_path0, data = Some (descriptor0\<lparr>stop := True\<rparr>)\<rparr>\<rparr>"

definition delete_change :: "WorkerDescriptor Change" where
  "delete_change =
     \<lparr>before = \<lparr>ref = worker_path0, data = Some descriptor0\<rparr>,
      after = \<lparr>ref = worker_path0, data = None\<rparr>\<rparr>"

definition context0 :: EventContext where
  "context0 = \<lparr>params = [(''workerId'', ''w1'')]\<rparr>"

text \<open>
  The condition under which the worker's own \<open>run\<close> exits at once, in the words of the
  specification: "the descriptor no longer exists or carries a stop flag".
\<close>

definition gone_or_stopped :: "WorkerDescriptor DocumentSnapshot \<Rightarrow> bool" where
  "gone_or_stopped snap = (case data snap of None \<Rightarrow> True | Some d \<Rightarrow> stop d)"

text \<open>
  Two writes that a trigger can deliver on a shard document: its creation by a writer and
  its deletion by the aggregation.
\<close>

definition shard_path0 :: string where
  "shard_path0 = ''counters/visits/_counter_shards_/s1''"

definition shard_create :: "Shard Change" where
  "shard_create =
     \<lparr>before = \<lparr>ref = shard_path0, data = None\<rparr>,
      after = \<lparr>ref = shard_path0, data = Some \<lparr>shard_key = ''s1'', delta = 1\<rparr>\<rparr>\<rparr>"

definition shard_delete :: "Shard Change" where
  "shard_delete =
     \<lparr>before = \<lparr>ref = shard_path0, data = Some \<lparr>shard_key = ''s1'', delta = 1\<rparr>\<rparr>,
      after = \<lparr>ref = shard_path0, data = None\<rparr>\<rparr>"

definition context1 :: EventContext where
  "context1 = \<lparr>params = [(''collection'', ''counters''), (''shardId'', ''s1'')]\<rparr>"

text \<open>
  A history of one counter: three writes, a pass that fails, direct passes, the creation
  of a worker descriptor and passes on the two partitions below and from the key
  \<open>k2\<close>.
\<close>

definition history0 :: "event list" where
  "history0 =
     [ShardWrite \<lparr>shard_key = ''k3'', delta = 5\<rparr>,
      ShardWrite \<lparr>shard_key = ''k1'', delta = - 2\<rparr>,
      AggregationPass \<lparr>start = '''', end_key = ''''\<rparr> 1 False,
      ShardWrite \<lparr>shard_key = ''k1'', delta = 4\<rparr>,
      DescriptorsWrite [descriptor0],
      AggregationPass \<lparr>start = '''', end_key = ''k2''\<rparr> 200 True,
      AggregationPass \<lparr>start = '''', end_key = ''k2''\<rparr> 200 False,
      AggregationPass \<lparr>start = ''k2'', end_key = ''''\<rparr> 200 False,
      AggregationPass \<lparr>start = '''', end_key = ''''\<rparr> 200 False]"

text \<open>A counter whose partition below \<open>k2\<close> is drained while a shard remains above it.\<close>

definition drained_below_k2 :: CounterState where
  "drained_below_k2 =
     \<lparr>total_value = 2, shards = [\<lparr>shard_key = ''k3'', delta = 5\<rparr>],
      workers = [descriptor0]\<rparr>"

section \<open>The configuration of the examples\<close>

lemma env0_document:
  "firestore_doc (INTERNAL_STATE_PATH env0)
     = Inr (DocumentReference ''_firebase_ext_/sharded_counter/'')"
  by (simp add: firestore_doc_def env0_def is_document_path_def segments_def)

lemma env0_topic: "topic (EXT_INSTANCE_ID env0) = Inr ''firestore-counter''"
  by (simp add: topic_def env0_def)

lemma env_unset_topic: "topic (EXT_INSTANCE_ID env_unset) = Inl InvalidTopicName"
  by (simp add: topic_def env_unset_def)

section \<open>The periodic tick\<close>

lemma controllerCore_unfold:
  "firestore_doc (INTERNAL_STATE_PATH env) = Inr metadocRef \<Longrightarrow>
   controllerCore C env w =
     (let st = fst (aggregateOnce C (state_controller metadocRef) full_range 200 (store w));
          s1 = snd (aggregateOnce C (state_controller metadocRef) full_range 200 (store w));
          w1 = record_call (AggregateOnce (state_controller metadocRef) full_range 200)
                 (w\<lparr>store := s1\<rparr>)
      in if st = WORKERS_RUNNING \<or> st = TOO_MANY_SHARDS \<or> st = FAILURE
         then (Inr Null, record_call (RescheduleWorkers (state_controller metadocRef))
                       (w1\<lparr>store := rescheduleWorkers C (state_controller metadocRef) s1\<rparr>))
         else (Inr Null, w1))"
  by (cases "aggregateOnce C (state_controller metadocRef) full_range 200 (store w)")
     (simp add: controllerCore_def state_controller_def full_range_def
        SHARDS_COLLECTION_ID_def record_call_def Let_def)

text \<open>
  Where \<open>firestore.doc\<close> refuses INTERNAL_STATE_PATH the tick rejects before it has a
  controller: no call is made and nothing changes.
\<close>

lemma controllerCore_rejects:
  "firestore_doc (INTERNAL_STATE_PATH env) = Inl e \<Longrightarrow> controllerCore C env w = (Inl e, w)"
  by (simp add: controllerCore_def)

lemma controllerCore_unset: "controllerCore C env_unset w = (Inl InvalidDocumentPath, w)"
  by (simp add: controllerCore_rejects firestore_doc_def env_unset_def)

text \<open>
  C2: in a periodic tick that has its state document (\<open>firestore.doc\<close> accepts
  INTERNAL_STATE_PATH), \<open>rescheduleWorkers\<close> is called, after \<open>aggregateOnce\<close> and on
  the store that \<open>aggregateOnce\<close> left, exactly when the status that
  \<open>aggregateOnce\<close> returned is \<open>WORKERS_RUNNING\<close>, \<open>TOO_MANY_SHARDS\<close> or
  \<open>FAILURE\<close>; when the status is \<open>OK\<close> the invocation does nothing after
  \<open>aggregateOnce\<close>: the world is the one \<open>aggregateOnce\<close> left, with that one
  call recorded.
\<close>

theorem controllerCore_reschedules_iff:
  fixes C :: "('s, 'd) collaborators"
  assumes "firestore_doc (INTERNAL_STATE_PATH env) = Inr metadocRef"
  shows
  "let status = fst (aggregateOnce C (state_controller metadocRef) full_range 200 (store w));
       s1 = snd (aggregateOnce C (state_controller metadocRef) full_range 200 (store w));
       w' = snd (controllerCore C env w)
   in new_calls w w' =
        (if status = WORKERS_RUNNING \<or> status = TOO_MANY_SHARDS \<or> status = FAILURE
         then [AggregateOnce (state_controller metadocRef) full_range 200,
               RescheduleWorkers (state_controller metadocRef)]
         else [AggregateOnce (state_controller metadocRef) full_range 200])
      \<and> store w' =
        (if status = WORKERS_RUNNING \<or> status = TOO_MANY_SHARDS \<or> status = FAILURE
         then rescheduleWorkers C (state_controller metadocRef) s1
         else s1)
      \<and> (status = OK \<longrightarrow>
           w' = record_call (AggregateOnce (state_controller metadocRef) full_range 200)
                  (w\<lparr>store := s1\<rparr>))"
  by (simp add: controllerCore_unfold [OF assms] Let_def new_calls_def record_call_def)

theorem controllerCore_reschedules_iff_witness:
  "firestore_doc (INTERNAL_STATE_PATH env0)
     = Inr (DocumentReference ''_firebase_ext_/sharded_counter/'')
   \<and> snd (controllerCore (probe OK :: (nat, unit) collaborators) env0 (fresh 5))
       = record_call
           (AggregateOnce (state_controller (DocumentReference ''_firebase_ext_/sharded_counter/''))
              full_range 200)
           (fresh 6)
   \<and> new_calls (fresh 5)
        (snd (controllerCore (probe TOO_MANY_SHARDS :: (nat, unit) collaborators) env0 (fresh 5)))
       = [AggregateOnce (state_controller (DocumentReference ''_firebase_ext_/sharded_counter/''))
            full_range 200,
          RescheduleWorkers (state_controller (DocumentReference ''_firebase_ext_/sharded_counter/''))]
   \<and> store (snd (controllerCore (probe TOO_MANY_SHARDS :: (nat, unit) collaborators) env0
        (fresh 5))) = 12"
  using env0_document
    controllerCore_reschedules_iff
      [OF env0_document, of "probe OK :: (nat, unit) collaborators" "fresh 5"]
    controllerCore_reschedules_iff
      [OF env0_document, of "probe TOO_MANY_SHARDS :: (nat, unit) collaborators" "fresh 5"]
  by (simp add: Let_def probe_def fresh_def)

text \<open>
  C9: every invocation of the periodic tick that has its state document
  (\<open>firestore.doc\<close> accepts INTERNAL_STATE_PATH) calls \<open>aggregateOnce\<close> exactly once,
  on the range \<open>{start: "", end: ""}\<close> with limit 200 and on the store it found, calls
  \<open>rescheduleWorkers\<close> at most once, on the store \<open>aggregateOnce\<close> left, and
  resolves to null, whatever the status.
\<close>

theorem controllerCore_one_pass:
  fixes C :: "('s, 'd) collaborators"
  assumes "firestore_doc (INTERNAL_STATE_PATH env) = Inr metadocRef"
  shows
  "let controller = \<lparr>controllerDocRef = metadocRef, controllerShardsId = ''_counter_shards_''\<rparr>;
       slice = \<lparr>start = '''', end_key = ''''\<rparr>;
       status = fst (aggregateOnce C controller slice 200 (store w));
       s1 = snd (aggregateOnce C controller slice 200 (store w));
       w' = snd (controllerCore C env w)
   in filter is_AggregateOnce (new_calls w w') = [AggregateOnce controller slice 200]
    \<and> length (filter is_RescheduleWorkers (new_calls w w')) \<le> 1
    \<and> store w' =
        (if status = WORKERS_RUNNING \<or> status = TOO_MANY_SHARDS \<or> status = FAILURE
         then rescheduleWorkers C controller s1
         else s1)
    \<and> fst (controllerCore C env w) = Inr Null"
  using controllerCore_unfold [OF assms, of C w]
  by (simp add: Let_def new_calls_def record_call_def state_controller_def full_range_def)

theorem controllerCore_one_pass_witness:
  "firestore_doc (INTERNAL_STATE_PATH env0)
     = Inr (DocumentReference ''_firebase_ext_/sharded_counter/'')
   \<and> fst (controllerCore (probe FAILURE :: (nat, unit) collaborators) env0 (fresh 5)) = Inr Null
   \<and> store (snd (controllerCore (probe FAILURE :: (nat, unit) collaborators) env0 (fresh 5))) = 12
   \<and> fst (controllerCore (probe OK :: (nat, unit) collaborators) env0 (fresh 5)) = Inr Null
   \<and> store (snd (controllerCore (probe OK :: (nat, unit) collaborators) env0 (fresh 5))) = 6"
  using env0_document
    controllerCore_one_pass
      [OF env0_document, of "probe FAILURE :: (nat, unit) collaborators" "fresh 5"]
    controllerCore_one_pass
      [OF env0_document, of "probe OK :: (nat, unit) collaborators" "fresh 5"]
  by (simp add: Let_def probe_def fresh_def)

section \<open>The write of a shard document\<close>

lemma onWrite_rejects:
  "firestore_doc (INTERNAL_STATE_PATH env) = Inl e \<Longrightarrow>
     onWrite C env change context w = (Inl e, w)"
  by (simp add: onWrite_def)

lemma onWrite_unset: "onWrite C env_unset change context w = (Inl InvalidDocumentPath, w)"
  by (simp add: onWrite_rejects firestore_doc_def env_unset_def)

text \<open>
  C8: what \<open>onWrite\<close> does is independent of its event: for any two write events
  (whatever the documents before and after, the deletion of a shard included, and
  whatever the path parameters) the results are equal; and where the handler has its
  state document (\<open>firestore.doc\<close> accepts INTERNAL_STATE_PATH) the action is the one
  call of \<open>aggregateContinuously\<close> on a controller for that document, on the range
  \<open>{start: "", end: ""}\<close> with limit 200 and budget 60000, applied to the store it
  found.
\<close>

theorem onWrite_independent_of_event:
  fixes C :: "('s, 'd) collaborators" and change :: "'e Change" and change' :: "'f Change"
  shows
  "onWrite C env change context w = onWrite C env change' context' w
   \<and> (firestore_doc (INTERNAL_STATE_PATH env) = Inr metadocRef \<longrightarrow>
        fst (onWrite C env change context w) = Inr Undefined
        \<and> new_calls w (snd (onWrite C env change context w))
            = [AggregateContinuously
                 \<lparr>controllerDocRef = metadocRef, controllerShardsId = ''_counter_shards_''\<rparr>
                 \<lparr>start = '''', end_key = ''''\<rparr> 200 60000]
        \<and> store (snd (onWrite C env change context w))
            = aggregateContinuously C
                \<lparr>controllerDocRef = metadocRef, controllerShardsId = ''_counter_shards_''\<rparr>
                \<lparr>start = '''', end_key = ''''\<rparr> 200 60000 (store w))"
  by (simp add: onWrite_def SHARDS_COLLECTION_ID_def new_calls_def record_call_def Let_def)

theorem onWrite_independent_of_event_witness:
  "firestore_doc (INTERNAL_STATE_PATH env0)
     = Inr (DocumentReference ''_firebase_ext_/sharded_counter/'')
   \<and> onWrite (probe OK :: (nat, unit) collaborators) env0 shard_create context1 (fresh 5)
       = onWrite (probe OK) env0 shard_delete context0 (fresh 5)
   \<and> fst (onWrite (probe OK :: (nat, unit) collaborators) env0 shard_delete context0 (fresh 5))
       = Inr Undefined
   \<and> store (snd (onWrite (probe OK :: (nat, unit) collaborators) env0 shard_delete context0
        (fresh 5))) = 205"
  using env0_document
    onWrite_independent_of_event
      [of "probe OK :: (nat, unit) collaborators" env0 shard_create context1 "fresh 5"
          shard_delete context0 "DocumentReference ''_firebase_ext_/sharded_counter/''"]
    onWrite_independent_of_event
      [of "probe OK :: (nat, unit) collaborators" env0 shard_delete context0 "fresh 5"
          shard_delete context0 "DocumentReference ''_firebase_ext_/sharded_counter/''"]
  by (simp add: probe_def fresh_def)

section \<open>The write of a worker's metadata document\<close>

text \<open>
  C3 (the handler tests the existence of the document only): if the document does not
  exist after the write (it was deleted), the handler returns at once: no call, the world
  unchanged. Otherwise, whatever the fields of the document (a stop flag included), it
  constructs a worker on the snapshot after the write and the shards collection, and runs
  it.
\<close>

theorem worker_runs_iff_exists:
  fixes C :: "('s, 'd) collaborators"
  shows
  "(\<not> exists (after change) \<longrightarrow> worker C change context w = (Undefined, w))
   \<and> (exists (after change) \<longrightarrow>
        new_calls w (snd (worker C change context w))
          = [WorkerRun \<lparr>workerMetadoc = after change, workerShardsId = ''_counter_shards_''\<rparr>]
        \<and> store (snd (worker C change context w))
          = run C \<lparr>workerMetadoc = after change, workerShardsId = ''_counter_shards_''\<rparr>
              (store w))"
  by (simp add: worker_def SHARDS_COLLECTION_ID_def new_calls_def record_call_def Let_def)

theorem worker_runs_iff_exists_witness:
  "\<not> exists (after delete_change)
   \<and> worker (reporting OK) delete_change context0 (fresh ()) = (Undefined, fresh ())
   \<and> exists (after stop_change)
   \<and> new_calls (fresh ()) (snd (worker (reporting OK) stop_change context0 (fresh ())))
       = [WorkerRun \<lparr>workerMetadoc = after stop_change, workerShardsId = ''_counter_shards_''\<rparr>]"
proof -
  have d: "\<not> exists (after delete_change)"
    by (simp add: exists_def delete_change_def)
  have s: "exists (after stop_change)"
    by (simp add: exists_def stop_change_def)
  show ?thesis
    using d s
      worker_runs_iff_exists [of delete_change "reporting OK" context0 "fresh ()"]
      worker_runs_iff_exists [of stop_change "reporting OK" context0 "fresh ()"]
    by simp
qed

text \<open>
  With the condition "no longer exists or carries a stop flag" in place of existence the
  statement fails, on a descriptor that carries a stop flag: the document exists, so the
  handler starts a worker run on it.
\<close>

theorem worker_stop_flag_counterexample:
  "gone_or_stopped (after stop_change)
   \<and> new_calls (fresh ()) (snd (worker (reporting OK) stop_change context0 (fresh ())))
       = [WorkerRun \<lparr>workerMetadoc = after stop_change, workerShardsId = ''_counter_shards_''\<rparr>]"
  by (simp add: gone_or_stopped_def stop_change_def worker_def exists_def
        SHARDS_COLLECTION_ID_def new_calls_def record_call_def fresh_def reporting_def)

section \<open>The HTTPS trigger\<close>

lemma controller_cases:
  "controller env published w =
     (case topic (EXT_INSTANCE_ID env) of
        Inl e \<Rightarrow> (Inl e, snd (init_pubsub w))
      | Inr name \<Rightarrow>
          (case published of
             Some e \<Rightarrow>
               (Inl e, record_call (Publish (fst (init_pubsub w)) name ''{}'')
                         (snd (init_pubsub w)))
           | None \<Rightarrow>
               (Inr Undefined,
                record_call (Respond 200 ''Ok'')
                  (record_call (Publish (fst (init_pubsub w)) name ''{}'')
                     (snd (init_pubsub w))))))"
  by (cases "init_pubsub w")
     (simp add: controller_def JSON_stringify_empty_object_def Let_def
        split: sum.splits option.splits)

lemma init_pubsub_eq:
  "fst (init_pubsub w) = (case pubsub w of None \<Rightarrow> PubSub (constructed w) | Some client \<Rightarrow> client)"
  "store (snd (init_pubsub w)) = store w"
  "calls (snd (init_pubsub w)) = calls w @ (if pubsub w = None then [NewPubSub] else [])"
  "pubsub (snd (init_pubsub w)) = Some (fst (init_pubsub w))"
  "constructed (snd (init_pubsub w))
     = (if pubsub w = None then Suc (constructed w) else constructed w)"
  by (cases "pubsub w"; simp add: init_pubsub_def record_call_def Let_def)+

text \<open>
  C4: the HTTPS trigger leaves the store of the counter as it is and makes no call on the
  controller or the worker, however it ends. Where the topic has a name (EXT_INSTANCE_ID
  is set and not empty) and the publish resolves, it publishes one message to the topic
  and responds 200 "Ok" (before that, it constructs the messaging client if the variable
  is unset); where \<open>pubsub.topic\<close> refuses the name it rejects before publishing, and
  where the publish rejects it rejects before responding.
\<close>

theorem controller_frame:
  "store (snd (controller env published w)) = store w
   \<and> filter on_counter (new_calls w (snd (controller env published w))) = []
   \<and> (topic (EXT_INSTANCE_ID env) = Inr name \<and> published = None \<longrightarrow>
        fst (controller env published w) = Inr Undefined
        \<and> new_calls w (snd (controller env published w)) =
            (if pubsub w = None then [NewPubSub] else [])
            @ [Publish (case pubsub w of None \<Rightarrow> PubSub (constructed w) | Some client \<Rightarrow> client)
                 name ''{}'',
               Respond 200 ''Ok''])
   \<and> (topic (EXT_INSTANCE_ID env) = Inl e \<longrightarrow>
        fst (controller env published w) = Inl e
        \<and> new_calls w (snd (controller env published w)) =
            (if pubsub w = None then [NewPubSub] else []))
   \<and> (topic (EXT_INSTANCE_ID env) = Inr name \<and> published = Some e \<longrightarrow>
        fst (controller env published w) = Inl e
        \<and> new_calls w (snd (controller env published w)) =
            (if pubsub w = None then [NewPubSub] else [])
            @ [Publish (case pubsub w of None \<Rightarrow> PubSub (constructed w) | Some client \<Rightarrow> client)
                 name ''{}''])"
  by (cases "pubsub w")
     (auto simp add: controller_cases init_pubsub_eq new_calls_def record_call_def
        split: sum.splits option.splits)

theorem controller_frame_witness:
  "topic (EXT_INSTANCE_ID env0) = Inr ''firestore-counter''
   \<and> fst (controller env0 None (fresh (5::nat) :: (nat, unit) world)) = Inr Undefined
   \<and> new_calls (fresh 5) (snd (controller env0 None (fresh (5::nat) :: (nat, unit) world)))
       = [NewPubSub, Publish (PubSub 0) ''firestore-counter'' ''{}'', Respond 200 ''Ok'']
   \<and> store (snd (controller env0 None (fresh (5::nat) :: (nat, unit) world))) = 5
   \<and> topic (EXT_INSTANCE_ID env_unset) = Inl InvalidTopicName
   \<and> fst (controller env_unset None (fresh (5::nat) :: (nat, unit) world))
       = Inl InvalidTopicName
   \<and> new_calls (fresh 5) (snd (controller env_unset None (fresh (5::nat) :: (nat, unit) world)))
       = [NewPubSub]
   \<and> fst (controller env0 (Some PublishRejected) (fresh (5::nat) :: (nat, unit) world))
       = Inl PublishRejected
   \<and> new_calls (fresh 5)
        (snd (controller env0 (Some PublishRejected) (fresh (5::nat) :: (nat, unit) world)))
       = [NewPubSub, Publish (PubSub 0) ''firestore-counter'' ''{}'']"
  using env0_topic env_unset_topic
    controller_frame
      [of env0 None "fresh (5::nat) :: (nat, unit) world" "''firestore-counter''"
          InvalidTopicName]
    controller_frame
      [of env_unset None "fresh (5::nat) :: (nat, unit) world" "''firestore-counter''"
          InvalidTopicName]
    controller_frame
      [of env0 "Some PublishRejected" "fresh (5::nat) :: (nat, unit) world"
          "''firestore-counter''" PublishRejected]
  by (simp add: fresh_def)

section \<open>The messaging client\<close>

lemma client_inv_fresh: "client_inv (fresh s)"
  by (simp add: client_inv_def fresh_def)

lemma controllerCore_module_state:
  "pubsub (snd (controllerCore C env w)) = pubsub w"
  "constructed (snd (controllerCore C env w)) = constructed w"
  "filter (\<lambda>c. c = NewPubSub) (calls (snd (controllerCore C env w)))
     = filter (\<lambda>c. c = NewPubSub) (calls w)"
  by (cases "firestore_doc (INTERNAL_STATE_PATH env)";
      simp add: controllerCore_unfold controllerCore_rejects record_call_def Let_def)+

lemma worker_module_state:
  "pubsub (snd (worker C change context w)) = pubsub w"
  "constructed (snd (worker C change context w)) = constructed w"
  "filter (\<lambda>c. c = NewPubSub) (calls (snd (worker C change context w)))
     = filter (\<lambda>c. c = NewPubSub) (calls w)"
  by (simp_all add: worker_def record_call_def Let_def)

lemma onWrite_module_state:
  "pubsub (snd (onWrite C env change context w)) = pubsub w"
  "constructed (snd (onWrite C env change context w)) = constructed w"
  "filter (\<lambda>c. c = NewPubSub) (calls (snd (onWrite C env change context w)))
     = filter (\<lambda>c. c = NewPubSub) (calls w)"
  by (cases "firestore_doc (INTERNAL_STATE_PATH env)";
      simp add: onWrite_def record_call_def Let_def)+

lemma controller_client_inv:
  "client_inv w \<Longrightarrow> client_inv (snd (controller env published w))"
  by (cases "pubsub w")
     (auto simp add: client_inv_def controller_cases init_pubsub_def record_call_def Let_def
        split: sum.splits option.splits)

lemma controller_pubsub_set: "pubsub (snd (controller env published w)) \<noteq> None"
  by (auto simp add: controller_cases init_pubsub_eq record_call_def
        split: sum.splits option.splits)

lemma serve_client_inv: "client_inv w \<Longrightarrow> client_inv (serve C env i w)"
proof (cases i)
  case (HttpRequest published)
  then show "client_inv w \<Longrightarrow> client_inv (serve C env i w)"
    by (simp add: controller_client_inv)
qed (simp_all add: client_inv_def controllerCore_module_state worker_module_state
       onWrite_module_state)

lemma serve_all_client_inv: "client_inv w \<Longrightarrow> client_inv (serve_all C env evs w)"
  by (induction evs arbitrary: w) (simp_all add: serve_client_inv)

lemma serve_pubsub_None:
  "(pubsub (serve C env i w) = None) = (pubsub w = None \<and> \<not> is_HttpRequest i)"
  by (cases i) (simp_all add: controllerCore_module_state worker_module_state
       onWrite_module_state controller_pubsub_set)

lemma serve_all_pubsub_None:
  "(pubsub (serve_all C env evs w) = None)
     = (pubsub w = None \<and> filter is_HttpRequest evs = [])"
  by (induction evs arbitrary: w) (auto simp: serve_pubsub_None)

lemma client_inv_count:
  "client_inv w \<Longrightarrow> length (filter (\<lambda>c. c = NewPubSub) (calls w)) \<le> 1"
  by (simp add: client_inv_def split: if_splits)

lemma client_inv_Some:
  "client_inv w \<Longrightarrow> pubsub w \<noteq> None \<Longrightarrow>
     pubsub w = Some (PubSub 0) \<and> filter (\<lambda>c. c = NewPubSub) (calls w) = [NewPubSub]"
  by (simp add: client_inv_def split: if_splits)

lemma controller_completed:
  "client_inv w \<Longrightarrow> topic (EXT_INSTANCE_ID env) = Inr name \<Longrightarrow>
   fst (controller env None w) = Inr Undefined
   \<and> new_calls w (snd (controller env None w)) =
       (if pubsub w = None then [NewPubSub] else [])
       @ [Publish (PubSub 0) name ''{}'', Respond 200 ''Ok'']"
  by (cases "pubsub w")
     (simp_all add: client_inv_def controller_cases init_pubsub_eq record_call_def
        new_calls_def)

text \<open>
  C10: in a process that starts with the variable unset and serves any invocations
  \<open>evs\<close>, then a request to the HTTPS trigger, then any invocations \<open>evs'\<close>: the
  variable is unset exactly as long as no request was served; at most one client is ever
  constructed, by the first request; after the request the variable holds that client,
  and it still holds the same client after everything that follows; and a request that
  completes (the topic has a name and the publish resolves) has published the empty JSON
  object to the topic named by EXT_INSTANCE_ID with that one client and responded 200
  "Ok".
\<close>

theorem pubsub_initialized_once:
  fixes C :: "('s, 'd) collaborators" and evs evs' :: "('d, 'e) invocation list"
  shows
  "let w = serve_all C env evs (fresh s);
       w' = snd (controller env published w);
       w'' = serve_all C env evs' w'
   in (pubsub w = None) = (filter is_HttpRequest evs = [])
    \<and> length (filter (\<lambda>c. c = NewPubSub) (calls w)) \<le> 1
    \<and> pubsub w' = Some (PubSub 0)
    \<and> pubsub w'' = pubsub w'
    \<and> length (filter (\<lambda>c. c = NewPubSub) (calls w'')) = 1
    \<and> (topic (EXT_INSTANCE_ID env) = Inr name \<and> published = None \<longrightarrow>
         fst (controller env published w) = Inr Undefined
         \<and> new_calls w w' =
             (if pubsub w = None then [NewPubSub] else [])
             @ [Publish (PubSub 0) name ''{}'', Respond 200 ''Ok''])"
proof -
  define w where "w = serve_all C env evs (fresh s :: ('s, 'd) world)"
  define w' where "w' = snd (controller env published w)"
  define w'' where "w'' = serve_all C env evs' w'"
  have i: "client_inv w"
    unfolding w_def by (rule serve_all_client_inv [OF client_inv_fresh])
  have i': "client_inv w'"
    unfolding w'_def by (rule controller_client_inv [OF i])
  have i'': "client_inv w''"
    unfolding w''_def by (rule serve_all_client_inv [OF i'])
  have a: "(pubsub w = None) = (filter is_HttpRequest evs = [])"
    unfolding w_def by (simp add: serve_all_pubsub_None fresh_def)
  have b: "length (filter (\<lambda>c. c = NewPubSub) (calls w)) \<le> 1"
    by (rule client_inv_count [OF i])
  have n': "pubsub w' \<noteq> None"
    unfolding w'_def by (rule controller_pubsub_set)
  have d: "pubsub w' = Some (PubSub 0)"
    using client_inv_Some [OF i' n'] by simp
  have n'': "pubsub w'' \<noteq> None"
    unfolding w''_def using n' by (simp add: serve_all_pubsub_None)
  have e: "pubsub w'' = pubsub w'"
    using client_inv_Some [OF i'' n''] d by simp
  have f: "length (filter (\<lambda>c. c = NewPubSub) (calls w'')) = 1"
    using client_inv_Some [OF i'' n''] by simp
  have c: "topic (EXT_INSTANCE_ID env) = Inr name \<and> published = None \<longrightarrow>
         fst (controller env published w) = Inr Undefined
         \<and> new_calls w w' =
             (if pubsub w = None then [NewPubSub] else [])
             @ [Publish (PubSub 0) name ''{}'', Respond 200 ''Ok'']"
    unfolding w'_def using controller_completed [OF i, of env name] by blast
  show ?thesis
    using a b c d e f
    unfolding w_def [symmetric] w'_def [symmetric] w''_def [symmetric] Let_def
    by simp
qed

theorem pubsub_initialized_once_witness:
  "topic (EXT_INSTANCE_ID env0) = Inr ''firestore-counter''
   \<and> pubsub (snd (controller env0 None
        (serve_all (probe OK) env0
           [Tick :: (unit, unit) invocation, HttpRequest (Some PublishRejected)]
           (fresh (5::nat))))) = Some (PubSub 0)
   \<and> new_calls
        (serve_all (probe OK) env0
           [Tick :: (unit, unit) invocation, HttpRequest (Some PublishRejected)] (fresh (5::nat)))
        (snd (controller env0 None
           (serve_all (probe OK) env0
              [Tick :: (unit, unit) invocation, HttpRequest (Some PublishRejected)]
              (fresh (5::nat)))))
       = [Publish (PubSub 0) ''firestore-counter'' ''{}'', Respond 200 ''Ok'']"
proof -
  have h: "filter is_HttpRequest
             [Tick :: (unit, unit) invocation, HttpRequest (Some PublishRejected)] \<noteq> []"
    by simp
  show ?thesis
    using h env0_topic
      pubsub_initialized_once
        [of "probe OK :: (nat, unit) collaborators" env0
            "[Tick :: (unit, unit) invocation, HttpRequest (Some PublishRejected)]" 5
            None "[] :: (unit, unit) invocation list" "''firestore-counter''"]
    by (simp add: Let_def del: serve_all.simps filter.simps)
qed

section \<open>The exports\<close>

text \<open>
  C5 (the entry point on the workers' documents is \<open>worker\<close>): the module exports
  exactly four entry points: \<open>controllerCore\<close> on
  the messages of a topic (the periodic tick), \<open>controller\<close> on HTTPS requests (the
  manual trigger), \<open>worker\<close> on the writes to the documents of the workers collection
  under INTERNAL_STATE_PATH, and \<open>onWrite\<close> on the writes to the documents of any
  shards collection.
\<close>

theorem exports_four_entry_points:
  "map fst (exports env) = [''controllerCore'', ''controller'', ''worker'', ''onWrite'']
   \<and> map_of (exports env) ''controllerCore'' = Some PubsubTopicOnPublish
   \<and> map_of (exports env) ''controller'' = Some HttpsOnRequest
   \<and> map_of (exports env) ''worker''
       = Some (FirestoreDocumentOnWrite
           (js_string (INTERNAL_STATE_PATH env) @ ''_counter_workers_/{workerId}''))
   \<and> map_of (exports env) ''onWrite''
       = Some (FirestoreDocumentOnWrite ''/{collection}/{**}/_counter_shards_/{shardId}'')"
  by (simp add: exports_def WORKERS_COLLECTION_ID_def)

text \<open>
  The specification names the entry point on the workers' documents \<open>workerTick\<close>:
  the module exports nothing under that name.
\<close>

theorem exports_workerTick_counterexample:
  "map_of (exports env0) ''workerTick'' = None
   \<and> map_of (exports env0) ''worker''
       = Some (FirestoreDocumentOnWrite
           ''_firebase_ext_/sharded_counter/_counter_workers_/{workerId}'')"
  by (simp add: exports_def env0_def WORKERS_COLLECTION_ID_def)

section \<open>Conservation of the increments\<close>

lemma sum_delta_remove1:
  "x \<in> set xs \<Longrightarrow> sum_list (map delta (remove1 x xs)) = sum_list (map delta xs) - delta x"
  by (induction xs) auto

lemma sum_delta_fold_remove1:
  "mset b \<subseteq># mset xs \<Longrightarrow>
     sum_list (map delta (fold remove1 b xs)) = sum_list (map delta xs) - sum_list (map delta b)"
proof (induction b arbitrary: xs)
  case Nil
  then show ?case by simp
next
  case (Cons x b)
  from Cons.prems have x: "x \<in> set xs"
    by (metis mset.simps(2) mset_subset_eq_insertD set_mset_mset)
  from Cons.prems have b: "mset b \<subseteq># mset (remove1 x xs)"
    by (simp add: insert_subset_eq_iff)
  show ?case
    using Cons.IH [OF b] sum_delta_remove1 [OF x] by simp
qed

lemma range_query_subset: "mset (range_query r limit xs) \<subseteq># mset xs"
proof -
  let ?ys = "filter (\<lambda>x. in_range r (shard_key x)) (sort_key shard_key xs)"
  have "mset (take limit ?ys) \<subseteq># mset (take limit ?ys) + mset (drop limit ?ys)"
    by simp
  also have "\<dots> = mset ?ys"
    by (simp add: union_code)
  also have "\<dots> \<subseteq># mset (sort_key shard_key xs)"
    by simp
  finally show ?thesis
    by (simp add: range_query_def)
qed

lemma aggregate_balance: "balance (snd (aggregate r limit exhausted s)) = balance s"
  by (simp add: aggregate_def balance_def Let_def sum_delta_fold_remove1 [OF range_query_subset])

lemma step_balance: "balance (step e s) = balance s + sum_list (written [e])"
  by (cases e) (simp_all add: aggregate_balance, simp_all add: balance_def)

lemma written_Cons:
  "sum_list (written (e # es)) = sum_list (written [e]) + sum_list (written es)"
  by (cases e) simp_all

lemma run_events_balance: "balance (run_events es s) = balance s + sum_list (written es)"
proof (induction es arbitrary: s)
  case Nil
  then show ?case by simp
next
  case (Cons e es)
  show ?case
    using Cons.IH [of "step e s"] step_balance [of e s] written_Cons [of e es] by simp
qed

text \<open>
  C1: for any history of shard writes and aggregation passes (on any ranges, with any
  limits, failed or not) on a counter that starts empty, once no shard record is left
  the total is the sum of the deltas of all the shards written.
\<close>

theorem conservation:
  "shards (run_events es (empty_counter ws)) = [] \<Longrightarrow>
     total_value (run_events es (empty_counter ws)) = sum_list (written es)"
  using run_events_balance [of es "empty_counter ws"]
  by (simp add: balance_def empty_counter_def)

theorem conservation_witness:
  "shards (run_events history0 (empty_counter [])) = []
   \<and> total_value (run_events history0 (empty_counter [])) = 7"
proof -
  have h: "shards (run_events history0 (empty_counter [])) = []"
    by (simp add: history0_def empty_counter_def aggregate_def range_query_def in_range_def
          Let_def)
  have "sum_list (written history0) = 7"
    by (simp add: history0_def)
  with conservation [OF h] h show ?thesis
    by simp
qed

section \<open>A drained range\<close>

lemma range_query_empty:
  "filter (\<lambda>x. in_range r (shard_key x)) xs = [] \<Longrightarrow> range_query r limit xs = []"
  by (simp add: range_query_def filter_empty_conv)

text \<open>
  C6: on a range in which no shard record remains, \<open>aggregate\<close> returns DRAINED (with
  nothing consumed) and leaves the store as it is: the total and the worker descriptors in
  particular; so calling it again gives the same.
\<close>

theorem aggregate_drained_idempotent:
  "filter (\<lambda>x. in_range r (shard_key x)) (shards s) = [] \<Longrightarrow>
     aggregate r limit exhausted s = (\<lparr>consumed = 0, status = DRAINED\<rparr>, s)
     \<and> total_value (snd (aggregate r limit exhausted s)) = total_value s
     \<and> workers (snd (aggregate r limit exhausted s)) = workers s
     \<and> aggregate r limit exhausted (snd (aggregate r limit exhausted s))
         = aggregate r limit exhausted s"
  by (simp add: aggregate_def range_query_empty)

theorem aggregate_drained_idempotent_witness:
  "filter (\<lambda>x. in_range \<lparr>start = '''', end_key = ''k2''\<rparr> (shard_key x))
     (shards drained_below_k2) = []
   \<and> aggregate \<lparr>start = '''', end_key = ''k2''\<rparr> 200 False drained_below_k2
       = (\<lparr>consumed = 0, status = DRAINED\<rparr>, drained_below_k2)"
proof -
  have h: "filter (\<lambda>x. in_range \<lparr>start = '''', end_key = ''k2''\<rparr> (shard_key x))
             (shards drained_below_k2) = []"
    by (simp add: drained_below_k2_def in_range_def)
  from aggregate_drained_idempotent [OF h, of 200 False] h show ?thesis
    by simp
qed

end
